theory Spec2Isabelle
  imports Complex_Main
begin

section \<open>Raster pixels and the image operators the program calls\<close>

text \<open>
  The program (\<open>src/app.py\<close>) builds every raster by calling operators of the Earth Engine
  client on images.  All of these operators work pixel by pixel, so an image is modelled by
  one of its pixels: the value of a single band, or \<open>None\<close> where the pixel is masked.
  Band values are exact rationals; the decimal literals of the source (\<open>0.15\<close>, \<open>0.25\<close>, ...)
  are the rationals they denote.

  The operators themselves are library code outside the repository.  Their definitions below
  follow the documented behaviour of the library:
  \<^item> a comparison yields 1 or 0 and is masked where its image operand is masked;
  \<^item> \<open>And\<close> yields 1 where both operands are non-zero, and is masked where either is masked;
  \<^item> \<open>updateMask\<close> keeps a pixel only where it was unmasked and the mask image is non-zero;
  \<^item> \<open>where\<close> outputs the replacement value where the test is non-zero and the input pixel
    otherwise; a masked test leaves the input pixel, and a masked input stays masked;
  \<^item> \<open>normalizedDifference\<close> computes \<open>(first - second) / (first + second)\<close> and masks the
    pixel when either band is masked or negative.
\<close>

type_synonym pixel = "rat option"

type_synonym image = "string \<Rightarrow> rat option"

definition gte :: "pixel \<Rightarrow> rat \<Rightarrow> pixel" where
  "gte img c = (case img of None \<Rightarrow> None | Some v \<Rightarrow> Some (if c \<le> v then 1 else 0))"

definition lt :: "pixel \<Rightarrow> rat \<Rightarrow> pixel" where
  "lt img c = (case img of None \<Rightarrow> None | Some v \<Rightarrow> Some (if v < c then 1 else 0))"

definition And :: "pixel \<Rightarrow> pixel \<Rightarrow> pixel" where
  "And a b =
     (case a of None \<Rightarrow> None
      | Some x \<Rightarrow> (case b of None \<Rightarrow> None
                   | Some y \<Rightarrow> Some (if x \<noteq> 0 \<and> y \<noteq> 0 then 1 else 0)))"

definition updateMask :: "pixel \<Rightarrow> pixel \<Rightarrow> pixel" where
  "updateMask img msk =
     (case img of None \<Rightarrow> None
      | Some v \<Rightarrow> (case msk of None \<Rightarrow> None
                   | Some m \<Rightarrow> if m = 0 then None else Some v))"

definition where_img :: "pixel \<Rightarrow> pixel \<Rightarrow> rat \<Rightarrow> pixel" where
  "where_img input test val =
     (case input of None \<Rightarrow> None
      | Some v \<Rightarrow> (case test of None \<Rightarrow> Some v
                   | Some t \<Rightarrow> if t \<noteq> 0 then Some val else Some v))"

definition normalizedDifference :: "image \<Rightarrow> string \<Rightarrow> string \<Rightarrow> pixel" where
  "normalizedDifference img first second =
     (case img first of None \<Rightarrow> None
      | Some a \<Rightarrow> (case img second of None \<Rightarrow> None
                   | Some b \<Rightarrow> if a < 0 \<or> b < 0 then None
                               else Some ((a - b) / (a + b))))"

section \<open>The band-math pipeline of \<open>main\<close>\<close>

text \<open>
  \<open>getNDVI\<close> is the local function of \<open>main\<close>; \<open>sat_imagery\<close> is the median composite
  it is applied to.
\<close>

definition getNDVI :: "image \<Rightarrow> pixel" where
  "getNDVI collection = normalizedDifference collection ''B8'' ''B4''"

text \<open>\<open>ndvi = ndvi.updateMask(ndvi.gte(0))\<close>: the NDVI layer that is rendered and classified.\<close>

definition ndvi_masked :: "pixel \<Rightarrow> pixel" where
  "ndvi_masked ndvi = updateMask ndvi (gte ndvi 0)"

definition ndvi_layer :: "image \<Rightarrow> pixel" where
  "ndvi_layer sat_imagery = ndvi_masked (getNDVI sat_imagery)"

text \<open>
  The seven tests of the classification, in the order of the source.  Each of them is
  computed from the image \<open>ndvi\<close>.
\<close>

definition class_tests :: "pixel \<Rightarrow> pixel list" where
  "class_tests ndvi =
     [And (gte ndvi 0) (lt ndvi (15/100)),
      And (gte ndvi (15/100)) (lt ndvi (25/100)),
      And (gte ndvi (25/100)) (lt ndvi (35/100)),
      And (gte ndvi (35/100)) (lt ndvi (45/100)),
      And (gte ndvi (45/100)) (lt ndvi (65/100)),
      And (gte ndvi (65/100)) (lt ndvi (75/100)),
      gte ndvi (75/100)]"

text \<open>
  The chain of \<open>where\<close> calls: the image returned by one call is the receiver of the next,
  and the first receiver is \<open>ndvi\<close> itself.
\<close>

definition ndvi_classified :: "pixel \<Rightarrow> pixel" where
  "ndvi_classified ndvi =
     where_img
      (where_img
        (where_img
          (where_img
            (where_img
              (where_img
                (where_img ndvi
                  (And (gte ndvi 0) (lt ndvi (15/100))) 1)
                (And (gte ndvi (15/100)) (lt ndvi (25/100))) 2)
              (And (gte ndvi (25/100)) (lt ndvi (35/100))) 3)
            (And (gte ndvi (35/100)) (lt ndvi (45/100))) 4)
          (And (gte ndvi (45/100)) (lt ndvi (65/100))) 5)
        (And (gte ndvi (65/100)) (lt ndvi (75/100))) 6)
      (gte ndvi (75/100)) 7"

text \<open>The classified layer as a function of the NDVI before masking.\<close>

definition classified_layer :: "pixel \<Rightarrow> pixel" where
  "classified_layer ndvi = ndvi_classified (ndvi_masked ndvi)"

section \<open>The AOI resolver \<open>upload_files_proc\<close>\<close>

text \<open>
  A parsed JSON document, as \<open>json.loads\<close> returns it: a dictionary is a list of
  key-value pairs read with \<open>map_of\<close>.  An uploaded file is modelled by the bytes that its
  \<open>read()\<close> returns.  \<open>json.loads\<close> itself is library code and is a parameter \<open>loads\<close> of
  the resolver; it either raises or returns a document.
\<close>

datatype json =
    JNull
  | JBool bool
  | JNumber rat
  | JString string
  | JArray "json list"
  | JObject "(string \<times> json) list"

datatype error = JSONDecodeError | KeyError string | IndexError | TypeError | EEException

type_synonym upload_file = string

definition read :: "upload_file \<Rightarrow> string" where
  "read upload_file = upload_file"

text \<open>
  Python's subscript \<open>d[k]\<close> with a string key: only a dictionary accepts it, and a missing
  key raises \<open>KeyError\<close>.
\<close>

fun getitem_key :: "json \<Rightarrow> string \<Rightarrow> error + json" where
  "getitem_key (JObject kvs) k =
     (case map_of kvs k of None \<Rightarrow> Inl (KeyError k) | Some v \<Rightarrow> Inr v)"
| "getitem_key _ k = Inl TypeError"

text \<open>
  Python's subscript \<open>d[0]\<close>: the first element of a list or the first character of a
  string, \<open>IndexError\<close> when these are empty, \<open>KeyError\<close> on a dictionary (whose keys are
  all strings), \<open>TypeError\<close> on a number, a boolean and \<open>None\<close>.
\<close>

fun getitem_0 :: "json \<Rightarrow> error + json" where
  "getitem_0 (JArray []) = Inl IndexError"
| "getitem_0 (JArray (x # xs)) = Inr x"
| "getitem_0 (JString []) = Inl IndexError"
| "getitem_0 (JString (c # cs)) = Inr (JString [c])"
| "getitem_0 (JObject kvs) = Inl (KeyError ''0'')"
| "getitem_0 _ = Inl TypeError"

text \<open>\<open>geojson_data['features'][0]['geometry']['coordinates']\<close>, left to right.\<close>

definition coordinates_of :: "json \<Rightarrow> error + json" where
  "coordinates_of geojson_data =
     (case getitem_key geojson_data ''features'' of Inl e \<Rightarrow> Inl e
      | Inr features \<Rightarrow>
     (case getitem_0 features of Inl e \<Rightarrow> Inl e
      | Inr feature \<Rightarrow>
     (case getitem_key feature ''geometry'' of Inl e \<Rightarrow> Inl e
      | Inr geom \<Rightarrow> getitem_key geom ''coordinates'')))"

text \<open>
  The geometry objects the resolver constructs.  A polygon holds the coordinates that the
  constructor stored after checking and normalising its argument; a multi-polygon built from
  geometry objects and the default point are requests that the client passes on as they are.
\<close>

datatype geometry =
    Polygon json
  | MultiPolygon "geometry list"
  | Point "rat list"

subsection \<open>The constructor \<open>ee.Geometry.Polygon\<close>\<close>

text \<open>
  \<open>ee.Geometry.Polygon(coordinates)\<close> is code of the Earth Engine client, outside the
  repository.  With a single argument that is plain data it works on the client alone, and
  the functions below follow the client's \<open>_parseArgs\<close>, \<open>_fixDepth\<close>,
  \<open>_coordinatesToLine\<close>, \<open>_isValidCoordinates\<close> and \<open>_isValidGeometry\<close>.  The class of
  the exception a rejected argument raises plays no part in the properties proved below.

  A number for Python is a JSON number or a boolean.
\<close>

fun is_number :: "json \<Rightarrow> bool" where
  "is_number (JNumber x) = True"
| "is_number (JBool b) = True"
| "is_number _ = False"

text \<open>The values that are iterable and not strings: lists and dictionaries.\<close>

fun is_nested :: "json \<Rightarrow> bool" where
  "is_nested (JArray xs) = True"
| "is_nested (JObject kvs) = True"
| "is_nested _ = False"

text \<open>
  \<open>_coordinatesToLine\<close> on a list of numbers: an empty list and a list of two numbers are
  kept, an odd number of numbers is an error, otherwise the numbers are paired into points.
\<close>

fun pairs :: "json list \<Rightarrow> json list" where
  "pairs (a # b # rest) = JArray [a, b] # pairs rest"
| "pairs _ = []"

definition coordinatesToLine :: "json list \<Rightarrow> error + json list" where
  "coordinatesToLine coordinates =
     (if coordinates = [] then Inr coordinates
      else if length coordinates = 2 then Inr coordinates
      else if odd (length coordinates) then Inl EEException
      else Inr (pairs coordinates))"

text \<open>The nesting level that \<open>_fixDepth\<close> counts, following first elements of lists.\<close>

fun nesting :: "json \<Rightarrow> nat" where
  "nesting (JArray []) = 1"
| "nesting (JArray (x # xs)) = Suc (nesting x)"
| "nesting _ = 0"

fun wrap :: "nat \<Rightarrow> json \<Rightarrow> json" where
  "wrap 0 coords = coords"
| "wrap (Suc n) coords = wrap n (JArray [coords])"

text \<open>
  \<open>_isValidCoordinates\<close>: the number of nested arrays, or \<open>-1\<close>.  A list whose first element
  is a list or a dictionary has one level more than that element, provided every other
  element has the same level as the first; any other list is a point, valid when it holds an
  even number of numbers.  An empty string and an empty dictionary count like an empty list,
  a non-empty string is not valid, and subscripting a non-empty dictionary with \<open>0\<close>
  raises.
\<close>

fun isValidCoordinates :: "json \<Rightarrow> error + int"
  and sameNesting :: "int \<Rightarrow> json list \<Rightarrow> error + bool"
where
  "isValidCoordinates (JArray []) = Inr 1"
| "isValidCoordinates (JArray (x # xs)) =
     (if is_nested x then
        (case isValidCoordinates x of Inl e \<Rightarrow> Inl e
         | Inr count \<Rightarrow>
        (case sameNesting count xs of Inl e \<Rightarrow> Inl e
         | Inr same \<Rightarrow> Inr (if same then count + 1 else - 1)))
      else Inr (if list_all is_number (x # xs) \<and> even (length (x # xs)) then 1 else - 1))"
| "isValidCoordinates (JString s) = Inr (if s = [] then 1 else - 1)"
| "isValidCoordinates (JObject []) = Inr 1"
| "isValidCoordinates (JObject (kv # kvs)) = Inl (KeyError ''0'')"
| "isValidCoordinates JNull = Inr (- 1)"
| "isValidCoordinates (JBool b) = Inr (- 1)"
| "isValidCoordinates (JNumber x) = Inr (- 1)"
| "sameNesting count [] = Inr True"
| "sameNesting count (s # ss) =
     (case isValidCoordinates s of Inl e \<Rightarrow> Inl e
      | Inr n \<Rightarrow> if n \<noteq> count then Inr False else sameNesting count ss)"

text \<open>Whether a chain of one-element lists ends in an empty list.\<close>

fun emptyInside :: "json \<Rightarrow> bool" where
  "emptyInside (JArray []) = True"
| "emptyInside (JArray [x]) = emptyInside x"
| "emptyInside _ = False"

text \<open>
  The first step of \<open>_fixDepth\<close>: a list of numbers only is turned into a line.  Iterating
  over a value that is not a list, a string or a dictionary raises.
\<close>

fun numbersToLine :: "json \<Rightarrow> error + json" where
  "numbersToLine (JArray xs) =
     (if list_all is_number xs
      then (case coordinatesToLine xs of Inl e \<Rightarrow> Inl e | Inr line \<Rightarrow> Inr (JArray line))
      else Inr (JArray xs))"
| "numbersToLine (JString s) = Inr (JString s)"
| "numbersToLine (JObject kvs) = Inr (JObject kvs)"
| "numbersToLine _ = Inl TypeError"

text \<open>
  \<open>_fixDepth\<close>: coordinates nested less deeply than \<open>depth\<close> are wrapped into lists until
  they are, then the nesting must be exactly \<open>depth\<close>; an empty array is not wrapped.
\<close>

definition fixDepth :: "nat \<Rightarrow> json \<Rightarrow> error + json" where
  "fixDepth depth coords =
     (case numbersToLine coords of Inl e \<Rightarrow> Inl e
      | Inr line \<Rightarrow>
          let wrapped = wrap (depth - nesting line) line in
          (case isValidCoordinates wrapped of Inl e \<Rightarrow> Inl e
           | Inr n \<Rightarrow>
               if n \<noteq> int depth then Inl EEException
               else Inr (if emptyInside wrapped then JArray [] else wrapped)))"

text \<open>
  The constructor: \<open>None\<close> leaves the argument list without coordinates, a single number
  is taken as a list of one number, everything else goes to \<open>_fixDepth\<close> with depth 3; the
  geometry is then created only if its coordinates have nesting 3.
\<close>

definition ee_Polygon :: "json \<Rightarrow> error + geometry" where
  "ee_Polygon coords =
     (if coords = JNull then Inl (KeyError ''coordinates'')
      else
        (case fixDepth 3 (if is_number coords then JArray [coords] else coords) of
           Inl e \<Rightarrow> Inl e
         | Inr fixed \<Rightarrow>
        (case isValidCoordinates fixed of Inl e \<Rightarrow> Inl e
         | Inr n \<Rightarrow> if n = 3 then Inr (Polygon fixed) else Inl EEException)))"

subsection \<open>The resolver\<close>

text \<open>
  The \<open>for\<close> loop over the uploaded files, with \<open>geometry_aoi_list\<close> as accumulator.  An
  exception raised in the body leaves the loop and the function.
\<close>

fun upload_loop ::
  "(string \<Rightarrow> error + json) \<Rightarrow> upload_file list \<Rightarrow> geometry list \<Rightarrow> error + geometry list"
where
  "upload_loop loads [] geometry_aoi_list = Inr geometry_aoi_list"
| "upload_loop loads (upload_file # rest) geometry_aoi_list =
     (case loads (read upload_file) of Inl e \<Rightarrow> Inl e
      | Inr geojson_data \<Rightarrow>
     (case coordinates_of geojson_data of Inl e \<Rightarrow> Inl e
      | Inr coordinates \<Rightarrow>
     (case ee_Polygon coordinates of Inl e \<Rightarrow> Inl e
      | Inr geometry \<Rightarrow>
          upload_loop loads rest (geometry_aoi_list @ [geometry]))))"

definition upload_files_proc ::
  "(string \<Rightarrow> error + json) \<Rightarrow> upload_file list \<Rightarrow> error + geometry"
where
  "upload_files_proc loads upload_files =
     (case upload_loop loads upload_files [] of Inl e \<Rightarrow> Inl e
      | Inr geometry_aoi_list \<Rightarrow>
          if geometry_aoi_list \<noteq> [] then Inr (MultiPolygon geometry_aoi_list)
          else Inr (Point [2798/100, 3613/100]))"

subsection \<open>Polygon documents\<close>

text \<open>
  What the properties below ask of an uploaded document.  Polygon coordinates are a
  non-empty list of rings, a ring is a non-empty list of positions, and a position is a list
  of two numbers.  A document has coordinates \<open>c\<close> when it is a dictionary whose
  \<open>features\<close> is a list, the first element of that list is a dictionary whose \<open>geometry\<close>
  is a dictionary, and \<open>c\<close> is the value of \<open>coordinates\<close> there.
\<close>

fun is_position :: "json \<Rightarrow> bool" where
  "is_position (JArray [JNumber x, JNumber y]) = True"
| "is_position _ = False"

fun is_ring :: "json \<Rightarrow> bool" where
  "is_ring (JArray positions) = (positions \<noteq> [] \<and> list_all is_position positions)"
| "is_ring _ = False"

fun is_polygon_coords :: "json \<Rightarrow> bool" where
  "is_polygon_coords (JArray rings) = (rings \<noteq> [] \<and> list_all is_ring rings)"
| "is_polygon_coords _ = False"

definition has_coordinates :: "json \<Rightarrow> json \<Rightarrow> bool" where
  "has_coordinates d c =
     (\<exists>kvs fkvs others gkvs.
        d = JObject kvs
        \<and> map_of kvs ''features'' = Some (JArray (JObject fkvs # others))
        \<and> map_of fkvs ''geometry'' = Some (JObject gkvs)
        \<and> map_of gkvs ''coordinates'' = Some c)"

section \<open>The time window and the image-collection query of \<open>main\<close>\<close>

text \<open>
  A calendar date as Python's \<open>datetime.date\<close> has it: a year from 1 to 9999, a month
  from 1 to 12 and a day of that month.  \<open>date_input\<close> returns the date the user picked, or
  the default value passed to it when the picker was left untouched.
\<close>

record date =
  year :: nat
  month :: nat
  day :: nat

definition leap :: "nat \<Rightarrow> bool" where
  "leap y = (if y mod 400 = 0 then True else if y mod 100 = 0 then False else y mod 4 = 0)"

definition days_in_month :: "nat \<Rightarrow> nat \<Rightarrow> nat" where
  "days_in_month y m =
     (if m = 2 then (if leap y then 29 else 28)
      else if m = 4 \<or> m = 6 \<or> m = 9 \<or> m = 11 then 30
      else 31)"

definition valid_date :: "date \<Rightarrow> bool" where
  "valid_date d =
     (1 \<le> year d \<and> year d \<le> 9999 \<and> 1 \<le> month d \<and> month d \<le> 12
      \<and> 1 \<le> day d \<and> day d \<le> days_in_month (year d) (month d))"

definition date_input :: "date option \<Rightarrow> date \<Rightarrow> date" where
  "date_input picked default_value = (case picked of None \<Rightarrow> default_value | Some d \<Rightarrow> d)"

definition digit :: "nat \<Rightarrow> char" where
  "digit n = ''0123456789'' ! (n mod 10)"

text \<open>A number in decimal, without leading zeros.\<close>

fun dec :: "nat \<Rightarrow> string" where
  "dec n = (if n < 10 then [digit n] else dec (n div 10) @ [digit n])"

declare dec.simps [simp del]

text \<open>A number below 100 on two digits.\<close>

definition pad2 :: "nat \<Rightarrow> string" where
  "pad2 n = [digit (n div 10), digit n]"

text \<open>
  \<open>strftime('%Y-%m-%d')\<close>: \<open>%Y\<close> is the year in decimal, which has four digits from the
  year 1000 on and fewer before; \<open>%m\<close> and \<open>%d\<close> are month and day on two digits.
\<close>

definition strftime :: "date \<Rightarrow> string" where
  "strftime d = dec (year d) @ ''-'' @ pad2 (month d) @ ''-'' @ pad2 (day d)"

text \<open>
  Reading a string of the form \<open>YYYY-MM-DD\<close>: ten characters, dashes at the fifth and the
  eighth place, digits elsewhere; the three groups of digits are year, month and day.
\<close>

definition is_digit :: "char \<Rightarrow> bool" where
  "is_digit c = (c \<in> set ''0123456789'')"

definition digit_val :: "char \<Rightarrow> nat" where
  "digit_val c = of_char c - 48"

definition decode :: "string \<Rightarrow> nat" where
  "decode s = foldl (\<lambda>a c. 10 * a + digit_val c) 0 s"

definition parse_iso :: "string \<Rightarrow> date option" where
  "parse_iso s =
     (if length s = 10 \<and> s ! 4 = CHR ''-'' \<and> s ! 7 = CHR ''-''
         \<and> list_all is_digit (take 4 s @ take 2 (drop 5 s) @ drop 8 s)
      then Some \<lparr>year = decode (take 4 s), month = decode (take 2 (drop 5 s)),
                 day = decode (drop 8 s)\<rparr>
      else None)"

text \<open>The order of dates.\<close>

definition date_lt :: "date \<Rightarrow> date \<Rightarrow> bool" where
  "date_lt a b =
     (year a < year b
      \<or> (year a = year b \<and> (month a < month b \<or> (month a = month b \<and> day a < day b))))"

definition date_le :: "date \<Rightarrow> date \<Rightarrow> bool" where
  "date_le a b =
     (date_lt a b \<or> (year a = year b \<and> month a = month b \<and> day a = day b))"

text \<open>
  The collection is a request to the remote service: the name of the archive and the filters
  applied to it, in the order of application.
\<close>

datatype ee_filter =
    Filter_lt string rat
  | Filter_date string string
  | Filter_bounds geometry

record image_collection =
  archive :: string
  filters :: "ee_filter list"

definition ImageCollection :: "string \<Rightarrow> image_collection" where
  "ImageCollection name = \<lparr>archive = name, filters = []\<rparr>"

definition filter_coll :: "image_collection \<Rightarrow> ee_filter \<Rightarrow> image_collection" where
  "filter_coll c f = c\<lparr>filters := filters c @ [f]\<rparr>"

definition filterDate :: "image_collection \<Rightarrow> string \<Rightarrow> string \<Rightarrow> image_collection" where
  "filterDate c start_str end_str = filter_coll c (Filter_date start_str end_str)"

definition filterBounds :: "image_collection \<Rightarrow> geometry \<Rightarrow> image_collection" where
  "filterBounds c g = filter_coll c (Filter_bounds g)"

text \<open>
  What the remote service does with the request.  A scene of the archive has numeric
  properties, the day (in UTC) on which it was acquired, and a footprint, given by the
  geometries it intersects.  \<open>ee.Filter.lt(name, value)\<close> keeps a scene whose property
  \<open>name\<close> is less than \<open>value\<close>; \<open>filterDate(start, end)\<close> keeps a scene acquired on or
  after the start day and before the end day; \<open>filterBounds(geometry)\<close> keeps a scene whose
  footprint intersects the geometry.  The scenes of a collection are those of the archive
  that remain after its filters have been applied one after the other.  The two strings of
  a date window are read as \<open>YYYY-MM-DD\<close>; a window with a string that does not read so
  keeps no scene here.
\<close>

record scene =
  properties :: "string \<Rightarrow> rat option"
  acquired :: date
  intersects :: "geometry \<Rightarrow> bool"

fun keeps :: "ee_filter \<Rightarrow> scene \<Rightarrow> bool" where
  "keeps (Filter_lt name val) sc =
     (case properties sc name of None \<Rightarrow> False | Some x \<Rightarrow> x < val)"
| "keeps (Filter_date start_str end_str) sc =
     (case parse_iso start_str of None \<Rightarrow> False
      | Some a \<Rightarrow> (case parse_iso end_str of None \<Rightarrow> False
                   | Some b \<Rightarrow> date_le a (acquired sc) \<and> date_lt (acquired sc) b))"
| "keeps (Filter_bounds g) sc = intersects sc g"

definition scenes_of :: "image_collection \<Rightarrow> scene list \<Rightarrow> scene list" where
  "scenes_of c archive_scenes =
     foldl (\<lambda>scenes f. filter (keeps f) scenes) archive_scenes (filters c)"

text \<open>
  The two date strings of \<open>main\<close>, from the state of the two pickers.
\<close>

definition start_date :: "date option \<Rightarrow> string" where
  "start_date picked = strftime (date_input picked \<lparr>year = 2023, month = 2, day = 10\<rparr>)"

definition end_date :: "date option \<Rightarrow> string" where
  "end_date picked = strftime (date_input picked \<lparr>year = 2023, month = 2, day = 20\<rparr>)"

text \<open>
  The query of \<open>main\<close>: the archive, then the three calls \<open>filter\<close>, \<open>filterDate\<close> and
  \<open>filterBounds\<close>, each applied to the result of the one before.
\<close>

definition collection :: "geometry \<Rightarrow> string \<Rightarrow> string \<Rightarrow> image_collection" where
  "collection geometry_aoi start_str end_str =
     filterBounds
      (filterDate
        (filter_coll (ImageCollection ''COPERNICUS/S2_SR'')
          (Filter_lt ''CLOUDY_PIXEL_PERCENTAGE'' 100))
        start_str end_str)
      geometry_aoi"

text \<open>
  \<open>main\<close> up to the collection: the AOI from the uploaded files, the dates from the pickers,
  then the query.  \<open>main\<close> catches no exception, so an error of the resolver ends it.
\<close>

definition main_collection ::
  "(string \<Rightarrow> error + json) \<Rightarrow> upload_file list \<Rightarrow> date option \<Rightarrow> date option
     \<Rightarrow> error + image_collection"
where
  "main_collection loads upload_files picked_start picked_end =
     (case upload_files_proc loads upload_files of Inl e \<Rightarrow> Inl e
      | Inr geometry_aoi \<Rightarrow>
          Inr (collection geometry_aoi (start_date picked_start) (end_date picked_end)))"

section \<open>The classification as a list of rules\<close>

text \<open>
  The reference classifier the design notes describe: an ordered list of rules
  \<open>(lowerBound, upperBound, classId)\<close>, the last one without upper bound, evaluated against
  the NDVI value; the first rule that matches gives the class, a value that no rule matches
  is kept, and a masked pixel stays masked.
\<close>

definition class_rules :: "(rat \<times> rat option \<times> rat) list" where
  "class_rules =
     [(0, Some (15/100), 1),
      (15/100, Some (25/100), 2),
      (25/100, Some (35/100), 3),
      (35/100, Some (45/100), 4),
      (45/100, Some (65/100), 5),
      (65/100, Some (75/100), 6),
      (75/100, None, 7)]"

fun rule_matches :: "rat \<Rightarrow> rat \<times> rat option \<times> rat \<Rightarrow> bool" where
  "rule_matches v (lo, hi, c) = (lo \<le> v \<and> (case hi of None \<Rightarrow> True | Some h \<Rightarrow> v < h))"

definition classify_by_rules :: "pixel \<Rightarrow> pixel" where
  "classify_by_rules ndvi =
     (case ndvi of None \<Rightarrow> None
      | Some v \<Rightarrow> (case find (rule_matches v) class_rules of
                     None \<Rightarrow> Some v
                   | Some (lo, hi, c) \<Rightarrow> Some c))"

text \<open>
  A test fires at a pixel where it is unmasked and non-zero: these are the pixels at which
  \<open>where\<close> replaces an unmasked input.
\<close>

definition fires :: "pixel \<Rightarrow> bool" where
  "fires test = (case test of None \<Rightarrow> False | Some t \<Rightarrow> t \<noteq> 0)"

section \<open>Sample inputs\<close>

text \<open>
  Two polygons, a bare ring, a document with two features around given coordinates, and a
  parser that knows a few byte strings: documents with a polygon (\<open>A\<close>, \<open>B\<close>), with an
  empty \<open>features\<close> list (\<open>E\<close>), with coordinates that are \<open>null\<close> (\<open>N\<close>), a string
  (\<open>S\<close>), a polygon wrapped once more (\<open>D\<close>), a bare ring (\<open>L\<close>) and a flat list of
  numbers (\<open>F\<close>); any other byte string is not JSON.
\<close>

definition sample_line :: json where
  "sample_line =
     JArray [JArray [JNumber 0, JNumber 0], JArray [JNumber 1, JNumber 0],
             JArray [JNumber 1, JNumber 1], JArray [JNumber 0, JNumber 0]]"

definition sample_ring_a :: json where
  "sample_ring_a =
     JArray [JArray [JArray [JNumber 0, JNumber 0], JArray [JNumber 1, JNumber 0],
                     JArray [JNumber 1, JNumber 1], JArray [JNumber 0, JNumber 0]]]"

definition sample_ring_b :: json where
  "sample_ring_b =
     JArray [JArray [JArray [JNumber 5, JNumber 5], JArray [JNumber 6, JNumber 5],
                     JArray [JNumber 6, JNumber 6], JArray [JNumber 5, JNumber 5]]]"

definition sample_geojson :: "json \<Rightarrow> json" where
  "sample_geojson coordinates =
     JObject [(''type'', JString ''FeatureCollection''),
              (''features'',
                 JArray [JObject [(''type'', JString ''Feature''),
                                  (''geometry'',
                                     JObject [(''type'', JString ''Polygon''),
                                              (''coordinates'', coordinates)])],
                         JObject [(''type'', JString ''Feature''),
                                  (''geometry'',
                                     JObject [(''type'', JString ''Point''),
                                              (''coordinates'',
                                                 JArray [JNumber 9, JNumber 9])])]])]"

definition sample_loads :: "string \<Rightarrow> error + json" where
  "sample_loads s =
     (if s = ''A'' then Inr (sample_geojson sample_ring_a)
      else if s = ''B'' then Inr (sample_geojson sample_ring_b)
      else if s = ''E'' then Inr (JObject [(''features'', JArray [])])
      else if s = ''N'' then Inr (sample_geojson JNull)
      else if s = ''S'' then Inr (sample_geojson (JString ''abc''))
      else if s = ''D'' then Inr (sample_geojson (JArray [sample_ring_a]))
      else if s = ''L'' then Inr (sample_geojson sample_line)
      else if s = ''F'' then
        Inr (sample_geojson
              (JArray [JNumber 0, JNumber 0, JNumber 1, JNumber 0, JNumber 1, JNumber 1]))
      else Inl JSONDecodeError)"

text \<open>
  Four scenes: one that passes every filter of the query for the default window and the
  default point, one with cloud cover exactly 100, one acquired on the end day, and one
  whose footprint misses the point.
\<close>

definition sample_scene :: "rat \<Rightarrow> nat \<Rightarrow> bool \<Rightarrow> scene" where
  "sample_scene cloud d hit =
     \<lparr>properties = (\<lambda>name. if name = ''CLOUDY_PIXEL_PERCENTAGE'' then Some cloud else None),
      acquired = \<lparr>year = 2023, month = 2, day = d\<rparr>,
      intersects = (\<lambda>g. hit)\<rparr>"

definition sample_archive :: "scene list" where
  "sample_archive =
     [sample_scene 99 10 True, sample_scene 100 12 True, sample_scene 5 20 True,
      sample_scene 5 15 False]"

section \<open>Properties of the pixel pipeline\<close>

lemma ndvi_masked_None: "ndvi_masked None = None"
  by (simp add: ndvi_masked_def updateMask_def)

lemma ndvi_masked_Some: "ndvi_masked (Some v) = (if v < 0 then None else Some v)"
  by (simp add: ndvi_masked_def updateMask_def gte_def)

lemma where_img_fires: "where_img (Some v) test c = (if fires test then Some c else Some v)"
  by (simp add: where_img_def fires_def split: option.splits)

lemma ndvi_classified_None: "ndvi_classified None = None"
  by (simp add: ndvi_classified_def where_img_def)

lemma ndvi_classified_Some:
  "ndvi_classified (Some v) =
     Some (if v < 0 then v
           else if v < 15/100 then 1
           else if v < 25/100 then 2
           else if v < 35/100 then 3
           else if v < 45/100 then 4
           else if v < 65/100 then 5
           else if v < 75/100 then 6
           else 7)"
  by (simp add: ndvi_classified_def where_img_def And_def gte_def lt_def)

lemma classified_layer_None: "classified_layer None = None"
  by (simp add: classified_layer_def ndvi_masked_None ndvi_classified_None)

lemma classified_layer_Some:
  "classified_layer (Some v) =
     (if v < 0 then None
      else if v < 15/100 then Some 1
      else if v < 25/100 then Some 2
      else if v < 35/100 then Some 3
      else if v < 45/100 then Some 4
      else if v < 65/100 then Some 5
      else if v < 75/100 then Some 6
      else Some 7)"
  by (simp add: classified_layer_def ndvi_masked_Some ndvi_classified_None ndvi_classified_Some)

lemma class_tests_Some:
  "class_tests (Some v) =
     [Some (if 0 \<le> v \<and> v < 15/100 then 1 else 0),
      Some (if 15/100 \<le> v \<and> v < 25/100 then 1 else 0),
      Some (if 25/100 \<le> v \<and> v < 35/100 then 1 else 0),
      Some (if 35/100 \<le> v \<and> v < 45/100 then 1 else 0),
      Some (if 45/100 \<le> v \<and> v < 65/100 then 1 else 0),
      Some (if 65/100 \<le> v \<and> v < 75/100 then 1 else 0),
      Some (if 75/100 \<le> v then 1 else 0)]"
  by (simp add: class_tests_def And_def gte_def lt_def)

lemma chain_is_fold_over_tests:
  "ndvi_classified ndvi =
     foldl (\<lambda>img (test, c). where_img img test c) ndvi
       (zip (class_tests ndvi) [1, 2, 3, 4, 5, 6, 7])"
  by (simp add: ndvi_classified_def class_tests_def)

lemma one_test_fires:
  "0 \<le> v \<Longrightarrow> length (filter fires (class_tests (ndvi_masked (Some v)))) = 1"
  by (simp add: ndvi_masked_Some class_tests_Some fires_def)

lemma fired_rule_gives_class:
  assumes "0 \<le> v"
  shows "\<exists>i<7. fires (class_tests (ndvi_masked (Some v)) ! i)
              \<and> classified_layer (Some v) = Some (of_nat (Suc i))"
proof -
  have m: "ndvi_masked (Some v) = Some v"
    using assms by (simp add: ndvi_masked_Some)
  consider "v < 15/100" | "15/100 \<le> v \<and> v < 25/100" | "25/100 \<le> v \<and> v < 35/100"
    | "35/100 \<le> v \<and> v < 45/100" | "45/100 \<le> v \<and> v < 65/100"
    | "65/100 \<le> v \<and> v < 75/100" | "75/100 \<le> v"
    by linarith
  then show ?thesis
  proof cases
    case 1
    then show ?thesis using assms
      by (intro exI [of _ 0]) (simp add: m class_tests_Some fires_def classified_layer_Some)
  next
    case 2
    then show ?thesis using assms
      by (intro exI [of _ 1]) (simp add: m class_tests_Some fires_def classified_layer_Some)
  next
    case 3
    then show ?thesis using assms
      by (intro exI [of _ 2]) (simp add: m class_tests_Some fires_def classified_layer_Some)
  next
    case 4
    then show ?thesis using assms
      by (intro exI [of _ 3]) (simp add: m class_tests_Some fires_def classified_layer_Some)
  next
    case 5
    then show ?thesis using assms
      by (intro exI [of _ 4]) (simp add: m class_tests_Some fires_def classified_layer_Some)
  next
    case 6
    then show ?thesis using assms
      by (intro exI [of _ 5]) (simp add: m class_tests_Some fires_def classified_layer_Some)
  next
    case 7
    then show ?thesis using assms
      by (intro exI [of _ 6]) (simp add: m class_tests_Some fires_def classified_layer_Some)
  qed
qed

lemma classified_layer_range:
  "classified_layer p = Some c \<Longrightarrow> c \<in> {1, 2, 3, 4, 5, 6, 7}"
  by (cases p) (auto simp add: classified_layer_None classified_layer_Some split: if_splits)

lemma at_most_one_rule_matches: "length (filter (rule_matches v) class_rules) \<le> 1"
  by (simp add: class_rules_def)

text \<open>
  C1.  The classification is a function of the NDVI value with lower-bound-inclusive
  breakpoints: a value in \<open>[0, 0.15)\<close> gets class 1, \<open>[0.15, 0.25)\<close> class 2,
  \<open>[0.25, 0.35)\<close> class 3, \<open>[0.35, 0.45)\<close> class 4, \<open>[0.45, 0.65)\<close> class 5,
  \<open>[0.65, 0.75)\<close> class 6 and \<open>[0.75, \<infinity>)\<close> class 7.  On these values the chain applied to
  the masked NDVI and the classified layer computed from the NDVI before masking agree.  In
  particular 0.10 gives class 1, 0.30 class 3, 0.80 class 7 and the boundary 0.25 class 3,
  and a masked NDVI pixel stays masked in the classified output.
\<close>

theorem ndvi_classification_breakpoints:
  fixes v :: rat
  shows "(0 \<le> v \<and> v < 15/100 \<longrightarrow> classified_layer (Some v) = Some 1)
       \<and> (15/100 \<le> v \<and> v < 25/100 \<longrightarrow> classified_layer (Some v) = Some 2)
       \<and> (25/100 \<le> v \<and> v < 35/100 \<longrightarrow> classified_layer (Some v) = Some 3)
       \<and> (35/100 \<le> v \<and> v < 45/100 \<longrightarrow> classified_layer (Some v) = Some 4)
       \<and> (45/100 \<le> v \<and> v < 65/100 \<longrightarrow> classified_layer (Some v) = Some 5)
       \<and> (65/100 \<le> v \<and> v < 75/100 \<longrightarrow> classified_layer (Some v) = Some 6)
       \<and> (75/100 \<le> v \<longrightarrow> classified_layer (Some v) = Some 7)
       \<and> (0 \<le> v \<longrightarrow> ndvi_classified (Some v) = classified_layer (Some v))
       \<and> classified_layer (Some (10/100)) = Some 1
       \<and> classified_layer (Some (30/100)) = Some 3
       \<and> classified_layer (Some (80/100)) = Some 7
       \<and> classified_layer (Some (25/100)) = Some 3
       \<and> classified_layer None = None
       \<and> ndvi_classified None = None"
  by (simp add: classified_layer_Some classified_layer_None ndvi_classified_None
        ndvi_classified_Some)

theorem ndvi_classification_breakpoints_witness:
  "(0::rat) \<le> 5/100 \<and> (5/100::rat) < 15/100
   \<and> classified_layer (Some (5/100)) = Some 1
   \<and> classified_layer (Some (15/100)) = Some 2
   \<and> classified_layer (Some (34/100)) = Some 3
   \<and> classified_layer (Some (35/100)) = Some 4
   \<and> classified_layer (Some (50/100)) = Some 5
   \<and> classified_layer (Some (70/100)) = Some 6
   \<and> classified_layer (Some 1) = Some 7
   \<and> ndvi_classified (Some 1) = Some 7"
  using ndvi_classification_breakpoints [of "5/100"]
        ndvi_classification_breakpoints [of "15/100"]
        ndvi_classification_breakpoints [of "34/100"]
        ndvi_classification_breakpoints [of "35/100"]
        ndvi_classification_breakpoints [of "50/100"]
        ndvi_classification_breakpoints [of "70/100"]
        ndvi_classification_breakpoints [of "1"]
  by simp

text \<open>
  C2.  The chain of seven \<open>where\<close> calls, each applied to the image the previous call
  returned and each with a test computed from the NDVI image itself, computes the same pixel
  as the reference classifier: the ordered rule list evaluated against the NDVI value, the
  first matching rule giving the class and a masked pixel staying masked.  No value matches
  more than one rule, so the first matching rule is the only one.
\<close>

theorem where_chain_refines_rules:
  "ndvi_classified ndvi = classify_by_rules ndvi
   \<and> length (filter (rule_matches v) class_rules) \<le> 1"
proof -
  have "ndvi_classified ndvi = classify_by_rules ndvi"
    by (cases ndvi)
       (simp_all add: ndvi_classified_None ndvi_classified_Some classify_by_rules_def
          class_rules_def)
  then show ?thesis
    using at_most_one_rule_matches by simp
qed

text \<open>
  C3.  Where the composite has unmasked, non-negative bands B8 and B4 whose sum is not zero,
  the NDVI is \<open>(B8 - B4) / (B8 + B4)\<close>; the rendered NDVI layer is masked where this value
  is below 0 and carries the value otherwise, so the layer is unmasked exactly at the pixels
  whose NDVI is at least 0.
\<close>

theorem ndvi_layer_normalized_difference:
  assumes "sat_imagery ''B8'' = Some b8" and "sat_imagery ''B4'' = Some b4"
    and "0 \<le> b8" and "0 \<le> b4" and "b8 + b4 \<noteq> 0"
  shows "getNDVI sat_imagery = Some ((b8 - b4) / (b8 + b4))
       \<and> ndvi_layer sat_imagery =
           (if (b8 - b4) / (b8 + b4) < 0 then None else Some ((b8 - b4) / (b8 + b4)))
       \<and> (\<forall>v. ndvi_layer sat_imagery = Some v \<longleftrightarrow> v = (b8 - b4) / (b8 + b4) \<and> 0 \<le> v)"
proof -
  have "getNDVI sat_imagery = Some ((b8 - b4) / (b8 + b4))"
    using assms by (simp add: getNDVI_def normalizedDifference_def)
  then show ?thesis
    by (auto simp add: ndvi_layer_def ndvi_masked_Some)
qed

theorem ndvi_layer_normalized_difference_witness:
  "(0::rat) \<le> 3/10 \<and> (0::rat) \<le> 1/10 \<and> (3/10::rat) + 1/10 \<noteq> 0
   \<and> ndvi_layer (\<lambda>b. if b = ''B8'' then Some (3/10) else if b = ''B4'' then Some (1/10) else None)
       = Some (1/2)
   \<and> ndvi_layer (\<lambda>b. if b = ''B8'' then Some (1/10) else if b = ''B4'' then Some (3/10) else None)
       = None"
  using ndvi_layer_normalized_difference
    [of "\<lambda>b. if b = ''B8'' then Some (3/10) else if b = ''B4'' then Some (1/10) else None"
        "3/10" "1/10"]
    ndvi_layer_normalized_difference
    [of "\<lambda>b. if b = ''B8'' then Some (1/10) else if b = ''B4'' then Some (3/10) else None"
        "1/10" "3/10"]
  by simp

text \<open>
  C10.  For every NDVI value that is at least 0, exactly one of the seven tests fires, and
  the classified pixel is the class of a test that fires; so every unmasked pixel of the
  classified layer holds a class from 1 to 7.  The tests are those of the chain.
\<close>

theorem class_tests_partition:
  "(0 \<le> v \<longrightarrow>
      length (filter fires (class_tests (ndvi_masked (Some v)))) = 1
      \<and> (\<exists>i<7. fires (class_tests (ndvi_masked (Some v)) ! i)
                \<and> classified_layer (Some v) = Some (of_nat (Suc i))))
   \<and> (classified_layer p = Some c \<longrightarrow> c \<in> {1, 2, 3, 4, 5, 6, 7})
   \<and> ndvi_classified ndvi =
        foldl (\<lambda>img (test, c). where_img img test c) ndvi
          (zip (class_tests ndvi) [1, 2, 3, 4, 5, 6, 7])"
  using one_test_fires [of v] fired_rule_gives_class [of v] classified_layer_range [of p c]
    chain_is_fold_over_tests [of ndvi]
  by blast

theorem class_tests_partition_witness:
  "(0::rat) \<le> 3/10
   \<and> length (filter fires (class_tests (ndvi_masked (Some (3/10))))) = 1
   \<and> classified_layer (Some (3/10)) = Some 3
   \<and> (3::rat) \<in> {1, 2, 3, 4, 5, 6, 7}"
  using class_tests_partition [of "3/10" "Some (3/10)" 3 None] classified_layer_Some [of "3/10"]
  by simp

section \<open>Properties of the polygon constructor\<close>

lemma has_coordinates_path: "has_coordinates d c \<Longrightarrow> coordinates_of d = Inr c"
  by (auto simp add: has_coordinates_def coordinates_of_def)

lemma sample_has_coordinates: "has_coordinates (sample_geojson c) c"
  by (simp add: has_coordinates_def sample_geojson_def)

lemma position_valid: "is_position p \<Longrightarrow> isValidCoordinates p = Inr 1"
  by (induction p rule: is_position.induct) simp_all

lemma positions_same: "list_all is_position ps \<Longrightarrow> sameNesting 1 ps = Inr True"
  by (induction ps) (simp_all add: position_valid)

lemma position_nested: "is_position p \<Longrightarrow> is_nested p \<and> nesting p = 1 \<and> \<not> emptyInside p"
  by (induction p rule: is_position.induct) simp_all

lemma ring_valid: "is_ring r \<Longrightarrow> isValidCoordinates r = Inr 2"
proof (cases r)
  case (JArray ps)
  assume "is_ring r"
  with JArray obtain p ps' where ps: "ps = p # ps'" and p: "is_position p"
    and rest: "list_all is_position ps'"
    by (cases ps) auto
  show ?thesis
    using JArray ps position_valid [OF p] positions_same [OF rest] position_nested [OF p]
    by simp
qed auto

lemma rings_same: "list_all is_ring rs \<Longrightarrow> sameNesting 2 rs = Inr True"
  by (induction rs) (simp_all add: ring_valid)

lemma ring_nested: "is_ring r \<Longrightarrow> is_nested r \<and> nesting r = 2 \<and> \<not> emptyInside r \<and> \<not> is_number r"
proof (cases r)
  case (JArray ps)
  assume "is_ring r"
  with JArray obtain p ps' where ps: "ps = p # ps'" and p: "is_position p"
    by (cases ps) auto
  show ?thesis using JArray ps position_nested [OF p] by (cases ps') simp_all
qed auto

lemma polygon_valid: "is_polygon_coords c \<Longrightarrow> isValidCoordinates c = Inr 3"
proof (cases c)
  case (JArray rs)
  assume "is_polygon_coords c"
  with JArray obtain r rs' where rs: "rs = r # rs'" and r: "is_ring r"
    and rest: "list_all is_ring rs'"
    by (cases rs) auto
  show ?thesis
    using JArray rs ring_valid [OF r] rings_same [OF rest] ring_nested [OF r]
    by simp
qed auto

lemma polygon_shape:
  "is_polygon_coords c \<Longrightarrow> nesting c = 3 \<and> \<not> emptyInside c \<and> numbersToLine c = Inr c \<and> c \<noteq> JNull \<and> \<not> is_number c"
proof (cases c)
  case (JArray rs)
  assume "is_polygon_coords c"
  with JArray obtain r rs' where rs: "rs = r # rs'" and r: "is_ring r"
    by (cases rs) auto
  show ?thesis using JArray rs ring_nested [OF r] by (cases rs') auto
qed auto


lemma ring_wrapped: "is_ring r \<Longrightarrow> ee_Polygon r = Inr (Polygon (JArray [r]))"
proof -
  assume r: "is_ring r"
  then have "is_polygon_coords (JArray [r])" by simp
  from polygon_valid [OF this] have v: "isValidCoordinates (JArray [r]) = Inr 3" .
  obtain ps where ps: "r = JArray ps" using r by (cases r) auto
  then obtain p ps' where pp: "ps = p # ps'" "is_position p" using r by (cases ps) auto
  then have nn: "\<not> list_all is_number ps" by (cases p) auto
  have w: "wrap (3 - nesting r) r = JArray [r]"
    using ring_nested [OF r] by (simp add: numeral_3_eq_3)
  have e: "\<not> emptyInside (JArray [r])" using ring_nested [OF r] by simp
  show ?thesis
    using v w e nn ps ring_nested [OF r]
    by (simp add: ee_Polygon_def fixDepth_def)
qed

lemma string_rejected: "ee_Polygon (JString s) = Inl EEException"
  by (simp add: ee_Polygon_def fixDepth_def numeral_3_eq_3)

lemma null_rejected: "ee_Polygon JNull = Inl (KeyError ''coordinates'')"
  by (simp add: ee_Polygon_def)

lemma number_rejected: "is_number c \<Longrightarrow> ee_Polygon c = Inl EEException"
  by (cases c) (simp_all add: ee_Polygon_def fixDepth_def coordinatesToLine_def)

lemma deeper_rejected: "is_polygon_coords c \<Longrightarrow> ee_Polygon (JArray [c]) = Inl EEException"
  using polygon_valid [of c] polygon_shape [of c]
  by (cases c) (auto simp add: ee_Polygon_def fixDepth_def)

text \<open>
  Positions with a third number are rejected as well: a point must hold an even number of
  numbers.
\<close>

lemma third_coordinate_rejected:
  "ee_Polygon
     (JArray [JArray [JArray [JNumber 0, JNumber 0, JNumber 5],
                      JArray [JNumber 1, JNumber 0, JNumber 5],
                      JArray [JNumber 1, JNumber 1, JNumber 5],
                      JArray [JNumber 0, JNumber 0, JNumber 5]]]) = Inl EEException"
  by (simp add: ee_Polygon_def fixDepth_def)

section \<open>Properties of the AOI resolver\<close>


lemma upload_loop_length:
  "upload_loop loads files acc = Inr l \<Longrightarrow> length l = length acc + length files"
  by (induction files arbitrary: acc) (auto split: sum.splits)

lemma upload_loop_bad:
  assumes "f \<in> set files"
    and "(\<exists>e. loads (read f) = Inl e)
         \<or> (\<exists>d e. loads (read f) = Inr d \<and> coordinates_of d = Inl e)
         \<or> (\<exists>d c e. loads (read f) = Inr d \<and> coordinates_of d = Inr c \<and> ee_Polygon c = Inl e)"
  shows "\<exists>e. upload_loop loads files acc = Inl e"
  using assms
proof (induction files arbitrary: acc)
  case Nil
  then show ?case by simp
next
  case (Cons g files)
  show ?case
  proof (cases "loads (read g)")
    case (Inl e)
    then show ?thesis by simp
  next
    case (Inr d)
    note ld = this
    show ?thesis
    proof (cases "coordinates_of d")
      case (Inl e)
      then show ?thesis using ld by simp
    next
      case (Inr c)
      note cd = this
      show ?thesis
      proof (cases "ee_Polygon c")
        case (Inl e)
        then show ?thesis using ld cd by simp
      next
        case (Inr geometry)
        then have "f \<noteq> g" using Cons.prems(2) ld cd by auto
        then have "f \<in> set files" using Cons.prems(1) by simp
        from Cons.IH [OF this Cons.prems(2)] show ?thesis using ld cd Inr by simp
      qed
    qed
  qed
qed

lemma sample_polygons: "is_polygon_coords sample_ring_a" "is_polygon_coords sample_ring_b"
  by (simp_all add: sample_ring_a_def sample_ring_b_def)

text \<open>
  C4.  For an empty list of uploaded files the resolver returns, without raising, the point
  with coordinates \<open>[27.98, 36.13]\<close>.  This is the only case in which it returns a point:
  for a non-empty list it never answers with the default.
\<close>

theorem empty_upload_gives_default_point:
  "upload_files_proc loads [] = Inr (Point [2798/100, 3613/100])
   \<and> (upload_files \<noteq> [] \<longrightarrow> (\<forall>p. upload_files_proc loads upload_files \<noteq> Inr (Point p)))"
proof -
  have "upload_files_proc loads upload_files \<noteq> Inr (Point p)" if "upload_files \<noteq> []" for p
  proof (cases "upload_loop loads upload_files []")
    case (Inl e)
    then show ?thesis by (simp add: upload_files_proc_def)
  next
    case (Inr l)
    then have "l \<noteq> []" using upload_loop_length [OF Inr] that by auto
    then show ?thesis using Inr by (simp add: upload_files_proc_def)
  qed
  then show ?thesis by (simp add: upload_files_proc_def)
qed

theorem empty_upload_gives_default_point_witness:
  "[''{''] \<noteq> ([] :: upload_file list)
   \<and> upload_files_proc (\<lambda>s. Inl JSONDecodeError) [''{''] \<noteq> Inr (Point [2798/100, 3613/100])
   \<and> upload_files_proc (\<lambda>s. Inl JSONDecodeError) [] = Inr (Point [2798/100, 3613/100])"
  using empty_upload_gives_default_point [of "\<lambda>s. Inl JSONDecodeError" "[''{'']"]
  by simp





text \<open>
  C7.  If any of the uploaded files fails to parse, or parses to a document in which the
  lookup of \<open>features[0].geometry.coordinates\<close> raises, or has a value there that the
  polygon constructor rejects, then the resolver raises: it returns no geometry at all,
  neither the default nor one built from the other files, and \<open>main\<close> ends with the same
  error.  The constructor rejects \<open>null\<close>, every string, every number and polygon
  coordinates wrapped in one more list.  It does not reject a bare ring: it wraps the ring
  into polygon coordinates.
\<close>

theorem bad_upload_aborts:
  "(f \<in> set upload_files
      \<and> ((\<exists>e. loads (read f) = Inl e)
          \<or> (\<exists>d e. loads (read f) = Inr d \<and> coordinates_of d = Inl e)
          \<or> (\<exists>d c e. loads (read f) = Inr d \<and> coordinates_of d = Inr c
                \<and> ee_Polygon c = Inl e))
      \<longrightarrow> (\<exists>e. upload_files_proc loads upload_files = Inl e
                \<and> main_collection loads upload_files picked_start picked_end = Inl e))
   \<and> (\<exists>e. ee_Polygon JNull = Inl e)
   \<and> (\<exists>e. ee_Polygon (JString s) = Inl e)
   \<and> (is_number n \<longrightarrow> (\<exists>e. ee_Polygon n = Inl e))
   \<and> (is_polygon_coords c \<longrightarrow> (\<exists>e. ee_Polygon (JArray [c]) = Inl e))
   \<and> (is_ring r \<longrightarrow> ee_Polygon r = Inr (Polygon (JArray [r])))"
proof -
  have "\<exists>e. upload_files_proc loads upload_files = Inl e
            \<and> main_collection loads upload_files picked_start picked_end = Inl e"
    if "f \<in> set upload_files"
      and "(\<exists>e. loads (read f) = Inl e)
          \<or> (\<exists>d e. loads (read f) = Inr d \<and> coordinates_of d = Inl e)
          \<or> (\<exists>d c e. loads (read f) = Inr d \<and> coordinates_of d = Inr c
                \<and> ee_Polygon c = Inl e)"
  proof -
    have "\<exists>e. upload_loop loads upload_files [] = Inl e"
      using that by (rule upload_loop_bad)
    then obtain e where "upload_loop loads upload_files [] = Inl e" ..
    then show ?thesis by (simp add: upload_files_proc_def main_collection_def)
  qed
  then show ?thesis
    using null_rejected string_rejected [of s] number_rejected [of n] deeper_rejected [of c]
      ring_wrapped [of r]
    by blast
qed

theorem bad_upload_aborts_witness:
  "''{'' \<in> set [''A'', ''{'', ''B'']
   \<and> sample_loads (read ''{'') = Inl JSONDecodeError
   \<and> (\<exists>e. upload_files_proc sample_loads [''A'', ''{'', ''B''] = Inl e
          \<and> main_collection sample_loads [''A'', ''{'', ''B''] None None = Inl e)
   \<and> coordinates_of (JObject [(''features'', JArray [])]) = Inl IndexError
   \<and> (\<exists>e. upload_files_proc sample_loads [''A'', ''E''] = Inl e
          \<and> main_collection sample_loads [''A'', ''E''] None None = Inl e)
   \<and> coordinates_of (sample_geojson JNull) = Inr JNull
   \<and> (\<exists>e. upload_files_proc sample_loads [''N'', ''A''] = Inl e
          \<and> main_collection sample_loads [''N'', ''A''] None None = Inl e)
   \<and> (\<exists>e. upload_files_proc sample_loads [''A'', ''S''] = Inl e
          \<and> main_collection sample_loads [''A'', ''S''] None None = Inl e)
   \<and> is_polygon_coords sample_ring_a
   \<and> (\<exists>e. upload_files_proc sample_loads [''D''] = Inl e
          \<and> main_collection sample_loads [''D''] None None = Inl e)"
proof -
  have c: "coordinates_of (sample_geojson x) = Inr x" for x
    using sample_has_coordinates by (rule has_coordinates_path)
  have e: "coordinates_of (JObject [(''features'', JArray [])]) = Inl IndexError"
    by (simp add: coordinates_of_def)
  note t = bad_upload_aborts [where loads = sample_loads and picked_start = None
      and picked_end = None and s = "''abc''" and c = sample_ring_a]
  have 1: "\<exists>e. upload_files_proc sample_loads [''A'', ''{'', ''B''] = Inl e
          \<and> main_collection sample_loads [''A'', ''{'', ''B''] None None = Inl e"
    using t [where f = "''{''" and upload_files = "[''A'', ''{'', ''B'']", THEN conjunct1]
    by (simp add: sample_loads_def read_def)
  have 2: "\<exists>e. upload_files_proc sample_loads [''A'', ''E''] = Inl e
          \<and> main_collection sample_loads [''A'', ''E''] None None = Inl e"
    using t [where f = "''E''" and upload_files = "[''A'', ''E'']", THEN conjunct1] e
    by (simp add: sample_loads_def read_def)
  have 3: "\<exists>e. upload_files_proc sample_loads [''N'', ''A''] = Inl e
          \<and> main_collection sample_loads [''N'', ''A''] None None = Inl e"
    using t [where f = "''N''" and upload_files = "[''N'', ''A'']", THEN conjunct1]
      t [THEN conjunct2, THEN conjunct1] c [of JNull]
    by (simp add: sample_loads_def read_def)
  have 4: "\<exists>e. upload_files_proc sample_loads [''A'', ''S''] = Inl e
          \<and> main_collection sample_loads [''A'', ''S''] None None = Inl e"
    using t [where f = "''S''" and upload_files = "[''A'', ''S'']", THEN conjunct1]
      t [THEN conjunct2, THEN conjunct2, THEN conjunct1] c [of "JString ''abc''"]
    by (simp add: sample_loads_def read_def)
  have 5: "\<exists>e. upload_files_proc sample_loads [''D''] = Inl e
          \<and> main_collection sample_loads [''D''] None None = Inl e"
    using t [where f = "''D''" and upload_files = "[''D'']", THEN conjunct1]
      t [THEN conjunct2, THEN conjunct2, THEN conjunct2, THEN conjunct2, THEN conjunct1]
      c [of "JArray [sample_ring_a]"] sample_polygons(1)
    by (simp add: sample_loads_def read_def)
  show ?thesis
    using 1 2 3 4 5 e c [of JNull] sample_polygons(1)
    by (simp add: sample_loads_def read_def)
qed

text \<open>
  A file whose coordinates are a bare ring, not polygon coordinates: the resolver raises
  nothing and returns a multi-polygon around the wrapped ring.  The same happens with a flat
  list of numbers.
\<close>

theorem bare_ring_is_repaired:
  "sample_loads (read ''L'') = Inr (sample_geojson sample_line)
   \<and> has_coordinates (sample_geojson sample_line) sample_line
   \<and> \<not> is_polygon_coords sample_line
   \<and> upload_files_proc sample_loads [''L''] =
       Inr (MultiPolygon [Polygon (JArray [sample_line])])
   \<and> upload_files_proc sample_loads [''F''] =
       Inr (MultiPolygon
             [Polygon (JArray [JArray [JArray [JNumber 0, JNumber 0],
                                       JArray [JNumber 1, JNumber 0],
                                       JArray [JNumber 1, JNumber 1]]])])"
proof -
  have c: "coordinates_of (sample_geojson x) = Inr x" for x
    using sample_has_coordinates by (rule has_coordinates_path)
  have "is_ring sample_line" by (simp add: sample_line_def)
  then have l: "ee_Polygon sample_line = Inr (Polygon (JArray [sample_line]))"
    by (rule ring_wrapped)
  have f: "ee_Polygon
             (JArray [JNumber 0, JNumber 0, JNumber 1, JNumber 0, JNumber 1, JNumber 1]) =
           Inr (Polygon (JArray [JArray [JArray [JNumber 0, JNumber 0],
                                         JArray [JNumber 1, JNumber 0],
                                         JArray [JNumber 1, JNumber 1]]]))"
    by (simp add: ee_Polygon_def fixDepth_def coordinatesToLine_def numeral_3_eq_3)
  have n: "\<not> is_polygon_coords sample_line" by (simp add: sample_line_def)
  show ?thesis
    using l f n c
    by (simp add: upload_files_proc_def sample_loads_def read_def sample_has_coordinates)
qed

section \<open>Properties of the time window and the query\<close>

lemma digit_is_digit: "is_digit (digit n)"
proof -
  have "n mod 10 < length ''0123456789''" by simp
  then have "''0123456789'' ! (n mod 10) \<in> set ''0123456789''" by (rule nth_mem)
  then show ?thesis by (simp only: is_digit_def digit_def)
qed

lemma digit_val_nth:
  "k < 10 \<Longrightarrow> digit_val (''0123456789'' ! k) = k"
proof -
  assume "k < 10"
  then have "k = 0 \<or> k = 1 \<or> k = 2 \<or> k = 3 \<or> k = 4 \<or> k = 5 \<or> k = 6 \<or> k = 7 \<or> k = 8 \<or> k = 9"
    by arith
  then show ?thesis
    by (elim disjE) (simp_all add: digit_val_def)
qed

lemma digit_val_digit: "digit_val (digit n) = n mod 10"
  by (simp add: digit_def digit_val_nth)

lemma decode_snoc: "decode (s @ [c]) = 10 * decode s + digit_val c"
  by (simp add: decode_def)

lemma decode_dec: "decode (dec n) = n"
proof (induction n rule: dec.induct)
  case (1 n)
  show ?case
  proof (cases "n < 10")
    case True
    then show ?thesis
      using dec.simps [of n] by (simp add: decode_def digit_val_digit)
  next
    case False
    then have "dec n = dec (n div 10) @ [digit n]"
      using dec.simps [of n] by simp
    then show ?thesis
      using "1.IH" False by (simp add: decode_snoc digit_val_digit)
  qed
qed

lemma digits_dec: "list_all is_digit (dec n)"
proof (induction n rule: dec.induct)
  case (1 n)
  show ?case
  proof (cases "n < 10")
    case True
    then show ?thesis using dec.simps [of n] by (simp add: digit_is_digit)
  next
    case False
    then have "dec n = dec (n div 10) @ [digit n]"
      using dec.simps [of n] by simp
    then show ?thesis using "1.IH" False by (simp add: digit_is_digit)
  qed
qed

lemma length_dec_step: "10 \<le> n \<Longrightarrow> length (dec n) = Suc (length (dec (n div 10)))"
  using dec.simps [of n] by simp

lemma length_dec_four:
  assumes "1000 \<le> y" and "y \<le> 9999"
  shows "length (dec y) = 4"
proof -
  have a: "length (dec y) = Suc (length (dec (y div 10)))"
    using assms by (intro length_dec_step) simp
  have "100 \<le> y div 10" using assms by linarith
  then have b: "length (dec (y div 10)) = Suc (length (dec (y div 10 div 10)))"
    by (intro length_dec_step) simp
  have "10 \<le> y div 10 div 10" using assms by linarith
  then have c: "length (dec (y div 10 div 10)) = Suc (length (dec (y div 10 div 10 div 10)))"
    by (intro length_dec_step)
  have "y div 10 div 10 div 10 < 10" using assms by linarith
  then have d: "length (dec (y div 10 div 10 div 10)) = 1"
    using dec.simps [of "y div 10 div 10 div 10"] by simp
  show ?thesis using a b c d by simp
qed

lemma decode_pad2: "n \<le> 99 \<Longrightarrow> decode (pad2 n) = n"
proof -
  assume "n \<le> 99"
  then have "n div 10 < 10" by linarith
  then have "n div 10 mod 10 = n div 10" by simp
  then show ?thesis
    by (simp add: pad2_def decode_def digit_val_digit)
qed


lemma days_in_month_le: "days_in_month y m \<le> 31"
  by (simp add: days_in_month_def)

lemma parse_iso_shape:
  assumes "length y = 4" and "list_all is_digit y"
  shows "parse_iso (y @ ''-'' @ pad2 m @ ''-'' @ pad2 d) =
           Some \<lparr>year = decode y, month = decode (pad2 m), day = decode (pad2 d)\<rparr>"
  using assms by (simp add: parse_iso_def pad2_def nth_append digit_is_digit)

lemma strftime_parse:
  assumes "valid_date d" and "1000 \<le> year d"
  shows "parse_iso (strftime d) = Some d"
proof -
  have y: "year d \<le> 9999" and m: "month d \<le> 99" and dd: "day d \<le> 99"
    using assms(1) days_in_month_le [of "year d" "month d"] by (auto simp add: valid_date_def)
  have "parse_iso (strftime d) =
      Some \<lparr>year = decode (dec (year d)), month = decode (pad2 (month d)),
            day = decode (pad2 (day d))\<rparr>"
    unfolding strftime_def
    using length_dec_four [OF assms(2) y] digits_dec [of "year d"] by (rule parse_iso_shape)
  then show ?thesis
    by (simp add: decode_dec decode_pad2 [OF m] decode_pad2 [OF dd])
qed

lemma strftime_length:
  assumes "valid_date d" and "1000 \<le> year d"
  shows "length (strftime d) = 10"
proof -
  have y: "year d \<le> 9999" using assms(1) by (simp add: valid_date_def)
  show ?thesis using length_dec_four [OF assms(2) y] by (simp add: strftime_def pad2_def)
qed

lemma dec_2023: "dec 2023 = ''2023''"
proof -
  have "dec 2 = ''2''" using dec.simps [of 2] by (simp add: digit_def)
  then have "dec 20 = ''20''" using dec.simps [of 20] by (simp add: digit_def)
  then have "dec 202 = ''202''" using dec.simps [of 202] by (simp add: digit_def)
  then show ?thesis using dec.simps [of 2023] by (simp add: digit_def)
qed

text \<open>Before the year 1000 the year has fewer than four digits.\<close>

lemma strftime_year_999: "strftime \<lparr>year = 999, month = 1, day = 1\<rparr> = ''999-01-01''"
proof -
  have "dec 9 = ''9''" using dec.simps [of 9] by (simp add: digit_def)
  then have "dec 99 = ''99''" using dec.simps [of 99] by (simp add: digit_def)
  then have "dec 999 = ''999''" using dec.simps [of 999] by (simp add: digit_def)
  then show ?thesis by (simp add: strftime_def pad2_def digit_def)
qed

lemma strftime_0210: "strftime \<lparr>year = 2023, month = 2, day = 10\<rparr> = ''2023-02-10''"
  by (simp add: strftime_def pad2_def digit_def dec_2023)

lemma strftime_0220: "strftime \<lparr>year = 2023, month = 2, day = 20\<rparr> = ''2023-02-20''"
  by (simp add: strftime_def pad2_def digit_def dec_2023)

lemma valid_0210: "valid_date \<lparr>year = 2023, month = 2, day = 10\<rparr>"
  by (simp add: valid_date_def days_in_month_def leap_def)

lemma valid_0220: "valid_date \<lparr>year = 2023, month = 2, day = 20\<rparr>"
  by (simp add: valid_date_def days_in_month_def leap_def)

lemma start_default: "start_date None = ''2023-02-10''"
  by (simp add: start_date_def date_input_def strftime_0210)

lemma end_default: "end_date None = ''2023-02-20''"
  by (simp add: end_date_def date_input_def strftime_0220)

lemma start_picked: "start_date (Some d) = strftime d"
  by (simp add: start_date_def date_input_def)

lemma end_picked: "end_date (Some d) = strftime d"
  by (simp add: end_date_def date_input_def)

lemma collection_eq:
  "collection g s e =
     \<lparr>archive = ''COPERNICUS/S2_SR'',
      filters = [Filter_lt ''CLOUDY_PIXEL_PERCENTAGE'' 100, Filter_date s e, Filter_bounds g]\<rparr>"
  by (simp add: collection_def filterBounds_def filterDate_def filter_coll_def ImageCollection_def)

lemma scenes_of_collection:
  "scenes_of (collection g s e) scenes =
     filter (keeps (Filter_bounds g))
       (filter (keeps (Filter_date s e))
         (filter (keeps (Filter_lt ''CLOUDY_PIXEL_PERCENTAGE'' 100)) scenes))"
  by (simp add: scenes_of_def collection_eq)

lemma main_collection_ok:
  "upload_files_proc loads upload_files = Inr g \<Longrightarrow>
   main_collection loads upload_files ps pe = Inr (collection g (start_date ps) (end_date pe))"
  by (simp add: main_collection_def)

text \<open>
  C8.  With both pickers untouched the dates are 2023-02-10 and 2023-02-20, and for the
  picker values 2023-02-10 and 2023-02-20 the strings are \<open>2023-02-10\<close> and
  \<open>2023-02-20\<close>.  Every date from the year 1000 on is formatted as \<open>YYYY-MM-DD\<close>: ten
  characters that read back as the same year, month and day.  The query receives the two
  strings as its date window.  Nothing compares the two dates: a window whose end precedes
  its start is passed to the query like any other.
\<close>

theorem date_window_strings:
  "start_date None = ''2023-02-10''
   \<and> end_date None = ''2023-02-20''
   \<and> start_date (Some \<lparr>year = 2023, month = 2, day = 10\<rparr>) = ''2023-02-10''
   \<and> end_date (Some \<lparr>year = 2023, month = 2, day = 20\<rparr>) = ''2023-02-20''
   \<and> (valid_date d \<and> 1000 \<le> year d \<longrightarrow>
         start_date (Some d) = strftime d \<and> end_date (Some d) = strftime d
         \<and> length (strftime d) = 10 \<and> parse_iso (strftime d) = Some d)
   \<and> (upload_files_proc loads upload_files = Inr geometry_aoi \<longrightarrow>
         main_collection loads upload_files picked_start picked_end =
           Inr \<lparr>archive = ''COPERNICUS/S2_SR'',
                filters = [Filter_lt ''CLOUDY_PIXEL_PERCENTAGE'' 100,
                           Filter_date (start_date picked_start) (end_date picked_end),
                           Filter_bounds geometry_aoi]\<rparr>)
   \<and> main_collection loads []
        (Some \<lparr>year = 2023, month = 2, day = 20\<rparr>) (Some \<lparr>year = 2023, month = 2, day = 10\<rparr>) =
       Inr \<lparr>archive = ''COPERNICUS/S2_SR'',
            filters = [Filter_lt ''CLOUDY_PIXEL_PERCENTAGE'' 100,
                       Filter_date ''2023-02-20'' ''2023-02-10'',
                       Filter_bounds (Point [2798/100, 3613/100])]\<rparr>"
proof -
  have m: "main_collection loads [] ps pe =
       Inr (collection (Point [2798/100, 3613/100]) (start_date ps) (end_date pe))" for ps pe
    by (simp add: main_collection_def upload_files_proc_def)
  show ?thesis
    using strftime_parse [of d] strftime_length [of d]
      main_collection_ok [of loads upload_files geometry_aoi picked_start picked_end]
    by (simp add: start_default end_default start_picked end_picked strftime_0210 strftime_0220
          m collection_eq)
qed

theorem date_window_strings_witness:
  "valid_date \<lparr>year = 2023, month = 2, day = 10\<rparr>
   \<and> (1000::nat) \<le> 2023
   \<and> parse_iso ''2023-02-10'' = Some \<lparr>year = 2023, month = 2, day = 10\<rparr>
   \<and> upload_files_proc sample_loads [] = Inr (Point [2798/100, 3613/100])
   \<and> main_collection sample_loads [] None None =
       Inr \<lparr>archive = ''COPERNICUS/S2_SR'',
            filters = [Filter_lt ''CLOUDY_PIXEL_PERCENTAGE'' 100,
                       Filter_date ''2023-02-10'' ''2023-02-20'',
                       Filter_bounds (Point [2798/100, 3613/100])]\<rparr>"
  using date_window_strings
    [of "\<lparr>year = 2023, month = 2, day = 10\<rparr>" sample_loads "[]"
        "Point [2798/100, 3613/100]" None None]
  by (simp add: valid_0210 strftime_0210 upload_files_proc_def)

lemma keeps_window:
  assumes "valid_date a" and "1000 \<le> year a" and "valid_date b" and "1000 \<le> year b"
  shows "keeps (Filter_date (strftime a) (strftime b)) sc
           = (date_le a (acquired sc) \<and> date_lt (acquired sc) b)"
  using strftime_parse [OF assms(1,2)] strftime_parse [OF assms(3,4)] by simp

text \<open>
  C9.  The query is the archive \<open>COPERNICUS/S2_SR\<close> with exactly three filters, applied in
  this order: \<open>CLOUDY_PIXEL_PERCENTAGE\<close> less than 100, the date window, the bounds of the
  AOI.  The scenes it selects are those of the archive whose cloud cover is below 100, which
  were acquired on or after the start day and before the end day, and whose footprint
  intersects the AOI.  The comparison with 100 is strict: a scene whose cloud cover is
  exactly 100 is never selected.
\<close>

theorem query_three_filters_in_order:
  "collection geometry_aoi start_str end_str =
     \<lparr>archive = ''COPERNICUS/S2_SR'',
      filters = [Filter_lt ''CLOUDY_PIXEL_PERCENTAGE'' 100,
                 Filter_date start_str end_str,
                 Filter_bounds geometry_aoi]\<rparr>
   \<and> scenes_of (collection geometry_aoi start_str end_str) scenes =
       filter (keeps (Filter_bounds geometry_aoi))
         (filter (keeps (Filter_date start_str end_str))
           (filter (keeps (Filter_lt ''CLOUDY_PIXEL_PERCENTAGE'' 100)) scenes))
   \<and> (valid_date a \<and> 1000 \<le> year a \<and> valid_date b \<and> 1000 \<le> year b \<longrightarrow>
        scenes_of (collection geometry_aoi (strftime a) (strftime b)) scenes =
          filter (\<lambda>sc. (\<exists>x. properties sc ''CLOUDY_PIXEL_PERCENTAGE'' = Some x \<and> x < 100)
                        \<and> date_le a (acquired sc) \<and> date_lt (acquired sc) b
                        \<and> intersects sc geometry_aoi) scenes)
   \<and> (properties sc ''CLOUDY_PIXEL_PERCENTAGE'' = Some 100 \<longrightarrow>
        sc \<notin> set (scenes_of (collection geometry_aoi start_str end_str) scenes))"
proof -
  have lt: "keeps (Filter_lt ''CLOUDY_PIXEL_PERCENTAGE'' 100) s
              = (\<exists>x. properties s ''CLOUDY_PIXEL_PERCENTAGE'' = Some x \<and> x < 100)" for s
    by (simp split: option.splits)
  have w: "scenes_of (collection geometry_aoi (strftime a) (strftime b)) scenes =
          filter (\<lambda>sc. (\<exists>x. properties sc ''CLOUDY_PIXEL_PERCENTAGE'' = Some x \<and> x < 100)
                        \<and> date_le a (acquired sc) \<and> date_lt (acquired sc) b
                        \<and> intersects sc geometry_aoi) scenes"
    if "valid_date a" "1000 \<le> year a" "valid_date b" "1000 \<le> year b"
    unfolding scenes_of_collection
    using keeps_window [OF that] lt
    by (auto intro: filter_cong)
  have s: "sc \<notin> set (scenes_of (collection geometry_aoi start_str end_str) scenes)"
    if "properties sc ''CLOUDY_PIXEL_PERCENTAGE'' = Some 100"
    unfolding scenes_of_collection using that by simp
  show ?thesis
    using collection_eq [of geometry_aoi start_str end_str]
      scenes_of_collection [of geometry_aoi start_str end_str scenes] w s
    by blast
qed

theorem query_three_filters_in_order_witness:
  "valid_date \<lparr>year = 2023, month = 2, day = 10\<rparr>
   \<and> valid_date \<lparr>year = 2023, month = 2, day = 20\<rparr>
   \<and> scenes_of (collection (Point [2798/100, 3613/100]) ''2023-02-10'' ''2023-02-20'')
        sample_archive = [sample_scene 99 10 True]
   \<and> properties (sample_scene 100 12 True) ''CLOUDY_PIXEL_PERCENTAGE'' = Some 100
   \<and> sample_scene 100 12 True
        \<notin> set (scenes_of (collection (Point [2798/100, 3613/100]) ''2023-02-10'' ''2023-02-20'')
                 sample_archive)"
proof -
  note t = query_three_filters_in_order
    [of "Point [2798/100, 3613/100]" "''2023-02-10''" "''2023-02-20''" sample_archive
        "\<lparr>year = 2023, month = 2, day = 10\<rparr>" "\<lparr>year = 2023, month = 2, day = 20\<rparr>"
        "sample_scene 100 12 True"]
  have p: "properties (sample_scene 100 12 True) ''CLOUDY_PIXEL_PERCENTAGE'' = Some 100"
    by (simp add: sample_scene_def)
  have w: "scenes_of (collection (Point [2798/100, 3613/100]) ''2023-02-10'' ''2023-02-20'')
        sample_archive = [sample_scene 99 10 True]"
    using t [THEN conjunct2, THEN conjunct2, THEN conjunct1]
    by (simp add: valid_0210 valid_0220 strftime_0210 strftime_0220 sample_archive_def
          sample_scene_def date_le_def date_lt_def)
  have n: "sample_scene 100 12 True
        \<notin> set (scenes_of (collection (Point [2798/100, 3613/100]) ''2023-02-10'' ''2023-02-20'')
                 sample_archive)"
    using t [THEN conjunct2, THEN conjunct2, THEN conjunct2] p by blast
  show ?thesis using p w n valid_0210 valid_0220 by blast
qed

end
